theory Spec2Isabelle
  imports Complex_Main
begin

section \<open>Tensors as shapes, exceptions as values\<close>

text \<open>
  The file \<^verbatim>\<open>rfb_esrgan_pytorch/model.py\<close> wires PyTorch layers into a generator and a
  discriminator. A tensor is modelled by its shape, the list of its dimension sizes
  (\<open>[N, C, H, W]\<close> for a batch of images, \<open>[C, H, W]\<close> for a single image); its contents
  are not modelled. A shape stands for a tensor of the dtype and on the device of the
  module's parameters (32-bit floats on the CPU for a freshly constructed module); what
  PyTorch raises for a tensor of another dtype or on another device is outside the model.
  An exception raised during a call is a value \<open>Inl e\<close>, named after its cause:
  \<^item> \<open>ShapeMismatch\<close>: a layer or a tensor function rejected its argument because its sizes
    do not fit the layer or the other arguments: the wrong rank or channel count, a kernel
    larger than the padded image, an empty image, a weight without channels, sizes that
    cannot be concatenated or broadcast;
  \<^item> \<open>TooFewValues\<close>: a batch normalisation in training mode was given a single value per
    channel (\<^verbatim>\<open>ValueError: Expected more than 1 value per channel when training\<close>);
  \<^item> \<open>AttributeError\<close>: an attribute was read that the constructor never assigned;
  \<^item> \<open>TypeError\<close>: a layer was handed \<^verbatim>\<open>None\<close> instead of a tensor;
  \<^item> \<open>MathDomainError\<close>: \<^verbatim>\<open>math.log\<close> of a non-positive number.
\<close>

type_synonym shape = "nat list"

datatype error = ShapeMismatch | TooFewValues | AttributeError | TypeError | MathDomainError

definition and_then :: "error + 'a \<Rightarrow> ('a \<Rightarrow> error + 'b) \<Rightarrow> error + 'b" where
  "and_then r f = (case r of Inl e \<Rightarrow> Inl e | Inr x \<Rightarrow> f x)"

subsection \<open>The layers of \<^verbatim>\<open>torch.nn\<close> used by the file\<close>

datatype layer =
    Conv2d (in_channels: nat) (out_channels: nat) (kernel_size: "nat \<times> nat")
           (stride: nat) (padding: "nat \<times> nat") (dilation: nat)
  | BatchNorm2d (num_features: nat) (training: bool)
  | LeakyReLU
  | ReLU
  | Linear (in_features: nat) (out_features: nat)
  | Upsample (scale_factor: nat)
  | PixelShuffle (shuffle_factor: nat)

text \<open>
  A layer carries the constructor arguments that bear on shapes. \<^verbatim>\<open>bias\<close>, \<^verbatim>\<open>negative_slope\<close>,
  \<^verbatim>\<open>inplace\<close> and \<^verbatim>\<open>mode\<close> do not; the activations return a tensor of the shape they get.

  One spatial dimension of a convolution: the kernel spans \<open>d * (k - 1) + 1\<close> cells. The
  call is rejected when the image is empty in that dimension or the kernel spans more than
  the padded image, and otherwise yields \<open>(i + 2 * p - span) div s + 1\<close> cells for an
  input of \<open>i\<close> cells.
\<close>

definition conv_out :: "nat \<Rightarrow> nat \<Rightarrow> nat \<Rightarrow> nat \<Rightarrow> nat \<Rightarrow> nat option" where
  "conv_out i k s p d =
     (let span = d * (k - 1) + 1
      in if i = 0 \<or> i + 2 * p < span then None else Some ((i + 2 * p - span) div s + 1))"

text \<open>
  The image sizes \<open>(h', w')\<close> a convolution gives an image of \<open>c\<close> channels and \<open>h\<close> by \<open>w\<close>
  cells. A convolution built with no input or no output channels raises when it is called.
\<close>

definition conv_image ::
  "nat \<Rightarrow> nat \<Rightarrow> nat \<times> nat \<Rightarrow> nat \<Rightarrow> nat \<times> nat \<Rightarrow> nat \<Rightarrow> nat \<Rightarrow> nat \<Rightarrow> nat \<Rightarrow> error + nat \<times> nat" where
  "conv_image cin cout k s p d c h w =
     (if cin = 0 \<or> cout = 0 then Inl ShapeMismatch
      else if c = cin then
        (case conv_out h (fst k) s (fst p) d of
           None \<Rightarrow> Inl ShapeMismatch
         | Some h' \<Rightarrow>
             (case conv_out w (snd k) s (snd p) d of
                None \<Rightarrow> Inl ShapeMismatch
              | Some w' \<Rightarrow> Inr (h', w')))
      else Inl ShapeMismatch)"

text \<open>\<^verbatim>\<open>nn.Conv2d\<close> takes a batch of images \<open>[N, C, H, W]\<close> or a single image \<open>[C, H, W]\<close>.\<close>

definition Conv2d_forward ::
  "nat \<Rightarrow> nat \<Rightarrow> nat \<times> nat \<Rightarrow> nat \<Rightarrow> nat \<times> nat \<Rightarrow> nat \<Rightarrow> shape \<Rightarrow> error + shape" where
  "Conv2d_forward cin cout k s p d x =
     (case x of
        [n, c, h, w] \<Rightarrow>
          (case conv_image cin cout k s p d c h w of
             Inl e \<Rightarrow> Inl e
           | Inr (h', w') \<Rightarrow> Inr [n, cout, h', w'])
      | [c, h, w] \<Rightarrow>
          (case conv_image cin cout k s p d c h w of
             Inl e \<Rightarrow> Inl e
           | Inr (h', w') \<Rightarrow> Inr [cout, h', w'])
      | _ \<Rightarrow> Inl ShapeMismatch)"

text \<open>
  \<^verbatim>\<open>nn.BatchNorm2d\<close> keeps the shape. It checks, in this order, that its argument is a batch
  \<open>[N, C, H, W]\<close>, that in training mode (the mode of a freshly constructed module) there is
  more than one value per channel, and that there are \<open>num_features\<close> channels.
\<close>

definition BatchNorm2d_forward :: "nat \<Rightarrow> bool \<Rightarrow> shape \<Rightarrow> error + shape" where
  "BatchNorm2d_forward f tr x =
     (case x of
        [n, c, h, w] \<Rightarrow>
          (if tr \<and> n * h * w = 1 then Inl TooFewValues
           else if c = f then Inr [n, c, h, w]
           else Inl ShapeMismatch)
      | _ \<Rightarrow> Inl ShapeMismatch)"

definition Linear_forward :: "nat \<Rightarrow> nat \<Rightarrow> shape \<Rightarrow> error + shape" where
  "Linear_forward fin fout x =
     (if x \<noteq> [] \<and> last x = fin then Inr (butlast x @ [fout]) else Inl ShapeMismatch)"

text \<open>
  \<^verbatim>\<open>nn.Upsample(scale_factor=k, mode="nearest")\<close> takes \<open>[N, C]\<close> followed by one, two or three
  spatial sizes, none of them zero, and multiplies each of these by \<open>k\<close>.
\<close>

definition Upsample_forward :: "nat \<Rightarrow> shape \<Rightarrow> error + shape" where
  "Upsample_forward k x =
     (case x of
        n # c # sp \<Rightarrow>
          (if sp = [] \<or> 3 < length sp \<or> k = 0 \<or> list_ex (\<lambda>i. i = 0) sp then Inl ShapeMismatch
           else Inr (n # c # map (\<lambda>i. k * i) sp))
      | _ \<Rightarrow> Inl ShapeMismatch)"

text \<open>
  \<^verbatim>\<open>nn.PixelShuffle(r)\<close> takes a shape that ends in \<open>[C, H, W]\<close> and moves a factor \<open>r * r\<close> of
  the channels into the two spatial sizes.
\<close>

definition PixelShuffle_forward :: "nat \<Rightarrow> shape \<Rightarrow> error + shape" where
  "PixelShuffle_forward r x =
     (case rev x of
        w # h # c # batch \<Rightarrow>
          (if 0 < r \<and> c mod (r * r) = 0 then Inr (rev batch @ [c div (r * r), h * r, w * r])
           else Inl ShapeMismatch)
      | _ \<Rightarrow> Inl ShapeMismatch)"

primrec layer_forward :: "layer \<Rightarrow> shape \<Rightarrow> error + shape" where
  "layer_forward (Conv2d cin cout k s p d) x = Conv2d_forward cin cout k s p d x"
| "layer_forward (BatchNorm2d f tr) x = BatchNorm2d_forward f tr x"
| "layer_forward LeakyReLU x = Inr x"
| "layer_forward ReLU x = Inr x"
| "layer_forward (Linear fin fout) x = Linear_forward fin fout x"
| "layer_forward (Upsample k) x = Upsample_forward k x"
| "layer_forward (PixelShuffle r) x = PixelShuffle_forward r x"

text \<open>
  \<^verbatim>\<open>nn.Sequential\<close> calls its members in order, each on the output of the one before; the
  first exception ends the call. The members' own forward is a parameter, since the file
  builds sequences of layers, of blocks and of both.
\<close>

fun Sequential_forward :: "('m \<Rightarrow> shape \<Rightarrow> error + shape) \<Rightarrow> 'm list \<Rightarrow> shape \<Rightarrow> error + shape" where
  "Sequential_forward fwd [] x = Inr x"
| "Sequential_forward fwd (m # ms) x =
     (case fwd m x of Inl e \<Rightarrow> Inl e | Inr y \<Rightarrow> Sequential_forward fwd ms y)"

subsection \<open>Tensor functions of \<^verbatim>\<open>torch\<close> used by the file\<close>

text \<open>
  \<^verbatim>\<open>torch.cat(tensors, 1)\<close>: every tensor must have the rank of the first and agree with it
  in every dimension but dimension 1, whose sizes are added.
\<close>

definition cat1 :: "shape list \<Rightarrow> error + shape" where
  "cat1 xs =
     (case xs of
        [] \<Rightarrow> Inl ShapeMismatch
      | x # rest \<Rightarrow>
          (if 2 \<le> length x \<and> list_all (\<lambda>y. length y = length x \<and> y[1 := 0] = x[1 := 0]) rest
           then Inr (x[1 := sum_list (map (\<lambda>y. y ! 1) xs)])
           else Inl ShapeMismatch))"

text \<open>
  Element-wise addition broadcasts: the shapes are aligned at their last dimension, and two
  sizes are compatible when they are equal or one of them is 1.
\<close>

fun broadcast_rev :: "nat list \<Rightarrow> nat list \<Rightarrow> nat list option" where
  "broadcast_rev [] ys = Some ys"
| "broadcast_rev xs [] = Some xs"
| "broadcast_rev (x # xs) (y # ys) =
     (if x = y \<or> x = 1 \<or> y = 1
      then map_option ((#) (if x = 1 then y else x)) (broadcast_rev xs ys)
      else None)"

definition add :: "shape \<Rightarrow> shape \<Rightarrow> error + shape" where
  "add x y =
     (case broadcast_rev (rev x) (rev y) of
        None \<Rightarrow> Inl ShapeMismatch
      | Some z \<Rightarrow> Inr (rev z))"

text \<open>Multiplying a tensor by a Python float keeps its shape.\<close>

definition mul_scalar :: "shape \<Rightarrow> rat \<Rightarrow> shape" where
  "mul_scalar x r = x"

text \<open>\<^verbatim>\<open>torch.flatten(x, 1)\<close> merges every dimension after the first.\<close>

definition flatten1 :: "shape \<Rightarrow> error + shape" where
  "flatten1 x =
     (case x of
        n # d # ds \<Rightarrow> Inr [n, prod_list (d # ds)]
      | _ \<Rightarrow> Inl ShapeMismatch)"

text \<open>
  \<^verbatim>\<open>nn.AdaptiveAvgPool2d((oh, ow))\<close> pools a batch of images or a single image to \<open>oh\<close> by
  \<open>ow\<close> cells; no size after the batch size may be zero.
\<close>

definition AdaptiveAvgPool2d_forward :: "nat \<times> nat \<Rightarrow> shape \<Rightarrow> error + shape" where
  "AdaptiveAvgPool2d_forward out x =
     (case x of
        [n, c, h, w] \<Rightarrow>
          (if c = 0 \<or> h = 0 \<or> w = 0 then Inl ShapeMismatch else Inr [n, c, fst out, snd out])
      | [c, h, w] \<Rightarrow>
          (if h = 0 \<or> w = 0 then Inl ShapeMismatch else Inr [c, fst out, snd out])
      | _ \<Rightarrow> Inl ShapeMismatch)"

text \<open>
  Reading \<^verbatim>\<open>self.scale_ratio\<close>: a module's attribute is \<open>Some r\<close> when its constructor
  assigned it and \<open>None\<close> when it did not, in which case the read raises.
\<close>

definition getattr :: "rat option \<Rightarrow> error + rat" where
  "getattr a = (case a of None \<Rightarrow> Inl AttributeError | Some r \<Rightarrow> Inr r)"

section \<open>The modules of the file\<close>

subsection \<open>Inception\<close>

record Inception =
  inc_shortcut :: layer
  inc_branch1 :: "layer list"
  inc_branch2 :: "layer list"
  inc_branch3 :: "layer list"
  inc_branch4 :: "layer list"
  inc_conv1x1 :: layer
  inc_lrelu :: "layer option"
  inc_scale_ratio :: "rat option"

text \<open>
  \<^verbatim>\<open>Inception.__init__(in_channels=64, out_channels=32, scale_ratio=0.2, non_linearity=True)\<close>,
  with \<^verbatim>\<open>channels = in_channels // 4\<close>. An integer kernel size or padding \<open>k\<close> is the pair
  \<open>(k, k)\<close>; a layer built without \<^verbatim>\<open>dilation\<close> has dilation 1.
\<close>

definition Inception_init :: "nat \<Rightarrow> nat \<Rightarrow> rat \<Rightarrow> bool \<Rightarrow> Inception" where
  "Inception_init in_ch out_ch ratio non_linearity =
     (let channels = in_ch div 4 in
      \<lparr> inc_shortcut = Conv2d in_ch out_ch (1, 1) 1 (0, 0) 1,
        inc_branch1 =
          [Conv2d in_ch channels (1, 1) 1 (0, 0) 1,
           ReLU,
           Conv2d channels channels (1, 1) 1 (1, 1) 1],
        inc_branch2 =
          [Conv2d in_ch channels (1, 1) 1 (0, 0) 1,
           ReLU,
           Conv2d channels channels (1, 3) 1 (0, 1) 1,
           ReLU,
           Conv2d channels channels (3, 3) 1 (3, 3) 3],
        inc_branch3 =
          [Conv2d in_ch channels (1, 1) 1 (0, 0) 1,
           ReLU,
           Conv2d channels channels (3, 1) 1 (1, 0) 1,
           ReLU,
           Conv2d channels channels (3, 3) 1 (3, 3) 3],
        inc_branch4 =
          [Conv2d in_ch (channels div 2) (1, 1) 1 (0, 0) 1,
           ReLU,
           Conv2d (channels div 4) ((channels div 4) * 3) (1, 3) 1 (0, 1) 1,
           ReLU,
           Conv2d ((channels div 4) * 3) channels (1, 3) 1 (0, 1) 1,
           ReLU,
           Conv2d channels channels (3, 3) 1 (5, 5) 5],
        inc_conv1x1 = Conv2d in_ch out_ch (1, 1) 1 (0, 0) 1,
        inc_lrelu = (if non_linearity then Some LeakyReLU else None),
        inc_scale_ratio = Some ratio \<rparr>)"

definition Inception_forward :: "Inception \<Rightarrow> shape \<Rightarrow> error + shape" where
  "Inception_forward m x =
     and_then (layer_forward (inc_shortcut m) x) (\<lambda>shortcut.
     and_then (Sequential_forward layer_forward (inc_branch1 m) x) (\<lambda>branch1.
     and_then (Sequential_forward layer_forward (inc_branch2 m) x) (\<lambda>branch2.
     and_then (Sequential_forward layer_forward (inc_branch3 m) x) (\<lambda>branch3.
     and_then (Sequential_forward layer_forward (inc_branch4 m) x) (\<lambda>branch4.
     and_then (cat1 [branch1, branch2, branch3, branch4]) (\<lambda>out.
     and_then (layer_forward (inc_conv1x1 m) out) (\<lambda>out.
     and_then (getattr (inc_scale_ratio m)) (\<lambda>ratio.
     and_then (add (mul_scalar shortcut ratio) out) (\<lambda>out.
     case inc_lrelu m of None \<Rightarrow> Inr out | Some l \<Rightarrow> layer_forward l out)))))))))"

subsection \<open>ReceptiveFieldsDenseBlock and ResidualInResidualFieldsDenseBlock\<close>

record ReceptiveFieldsDenseBlock =
  rfdb_conv1 :: Inception
  rfdb_conv2 :: Inception
  rfdb_conv3 :: Inception
  rfdb_conv4 :: Inception
  rfdb_conv5 :: Inception
  rfdb_scale_ratio :: "rat option"

text \<open>
  The constructor takes \<^verbatim>\<open>scale_ratio\<close> and drops it: it assigns \<^verbatim>\<open>conv1\<close> to \<^verbatim>\<open>conv5\<close> only,
  so the attribute \<^verbatim>\<open>scale_ratio\<close> is absent. The five Inception blocks are built with the
  default \<^verbatim>\<open>scale_ratio=0.2\<close>.
\<close>

definition ReceptiveFieldsDenseBlock_init :: "nat \<Rightarrow> nat \<Rightarrow> rat \<Rightarrow> ReceptiveFieldsDenseBlock" where
  "ReceptiveFieldsDenseBlock_init in_ch growth ratio =
     \<lparr> rfdb_conv1 = Inception_init in_ch growth (2 / 10) True,
       rfdb_conv2 = Inception_init (in_ch + 1 * growth) growth (2 / 10) True,
       rfdb_conv3 = Inception_init (in_ch + 2 * growth) growth (2 / 10) True,
       rfdb_conv4 = Inception_init (in_ch + 3 * growth) growth (2 / 10) True,
       rfdb_conv5 = Inception_init (in_ch + 4 * growth) growth (2 / 10) False,
       rfdb_scale_ratio = None \<rparr>"

definition ReceptiveFieldsDenseBlock_forward :: "ReceptiveFieldsDenseBlock \<Rightarrow> shape \<Rightarrow> error + shape" where
  "ReceptiveFieldsDenseBlock_forward m x =
     and_then (Inception_forward (rfdb_conv1 m) x) (\<lambda>conv1.
     and_then (and_then (cat1 [x, conv1]) (Inception_forward (rfdb_conv2 m))) (\<lambda>conv2.
     and_then (and_then (cat1 [x, conv1, conv2]) (Inception_forward (rfdb_conv3 m))) (\<lambda>conv3.
     and_then (and_then (cat1 [x, conv1, conv2, conv3]) (Inception_forward (rfdb_conv4 m))) (\<lambda>conv4.
     and_then (and_then (cat1 [x, conv1, conv2, conv3, conv4]) (Inception_forward (rfdb_conv5 m))) (\<lambda>conv5.
     and_then (getattr (rfdb_scale_ratio m)) (\<lambda>ratio.
     add (mul_scalar conv5 ratio) x))))))"

record ResidualInResidualFieldsDenseBlock =
  RFDB1 :: ReceptiveFieldsDenseBlock
  RFDB2 :: ReceptiveFieldsDenseBlock
  RFDB3 :: ReceptiveFieldsDenseBlock
  rrfdb_scale_ratio :: "rat option"

definition ResidualInResidualFieldsDenseBlock_init ::
  "nat \<Rightarrow> nat \<Rightarrow> rat \<Rightarrow> ResidualInResidualFieldsDenseBlock" where
  "ResidualInResidualFieldsDenseBlock_init in_ch growth ratio =
     \<lparr> RFDB1 = ReceptiveFieldsDenseBlock_init in_ch growth (2 / 10),
       RFDB2 = ReceptiveFieldsDenseBlock_init in_ch growth (2 / 10),
       RFDB3 = ReceptiveFieldsDenseBlock_init in_ch growth (2 / 10),
       rrfdb_scale_ratio = Some ratio \<rparr>"

definition ResidualInResidualFieldsDenseBlock_forward ::
  "ResidualInResidualFieldsDenseBlock \<Rightarrow> shape \<Rightarrow> error + shape" where
  "ResidualInResidualFieldsDenseBlock_forward m x =
     and_then (ReceptiveFieldsDenseBlock_forward (RFDB1 m) x) (\<lambda>out.
     and_then (ReceptiveFieldsDenseBlock_forward (RFDB2 m) out) (\<lambda>out.
     and_then (ReceptiveFieldsDenseBlock_forward (RFDB3 m) out) (\<lambda>out.
     and_then (getattr (rrfdb_scale_ratio m)) (\<lambda>ratio.
     add (mul_scalar out ratio) x))))"

subsection \<open>ResidualDenseBlock and ResidualInResidualDenseBlock\<close>

record ResidualDenseBlock =
  rdb_conv1 :: "layer list"
  rdb_conv2 :: "layer list"
  rdb_conv3 :: "layer list"
  rdb_conv4 :: "layer list"
  rdb_conv5 :: "layer list"
  rdb_scale_ratio :: "rat option"

text \<open>
  \<^verbatim>\<open>nn.Conv2d(i, o, 3, 1, 1, bias=False)\<close> is kernel 3, stride 1, padding 1.
\<close>

definition ResidualDenseBlock_init :: "nat \<Rightarrow> nat \<Rightarrow> rat \<Rightarrow> ResidualDenseBlock" where
  "ResidualDenseBlock_init in_ch growth ratio =
     \<lparr> rdb_conv1 = [Conv2d (in_ch + 0 * growth) growth (3, 3) 1 (1, 1) 1, LeakyReLU],
       rdb_conv2 = [Conv2d (in_ch + 1 * growth) growth (3, 3) 1 (1, 1) 1, LeakyReLU],
       rdb_conv3 = [Conv2d (in_ch + 2 * growth) growth (3, 3) 1 (1, 1) 1, LeakyReLU],
       rdb_conv4 = [Conv2d (in_ch + 3 * growth) growth (3, 3) 1 (1, 1) 1, LeakyReLU],
       rdb_conv5 = [Conv2d (in_ch + 4 * growth) in_ch (3, 3) 1 (1, 1) 1, LeakyReLU],
       rdb_scale_ratio = Some ratio \<rparr>"

definition ResidualDenseBlock_forward :: "ResidualDenseBlock \<Rightarrow> shape \<Rightarrow> error + shape" where
  "ResidualDenseBlock_forward m x =
     and_then (Sequential_forward layer_forward (rdb_conv1 m) x) (\<lambda>conv1.
     and_then (and_then (cat1 [x, conv1]) (Sequential_forward layer_forward (rdb_conv2 m))) (\<lambda>conv2.
     and_then (and_then (cat1 [x, conv1, conv2]) (Sequential_forward layer_forward (rdb_conv3 m))) (\<lambda>conv3.
     and_then (and_then (cat1 [x, conv1, conv2, conv3]) (Sequential_forward layer_forward (rdb_conv4 m))) (\<lambda>conv4.
     and_then (and_then (cat1 [x, conv1, conv2, conv3, conv4]) (Sequential_forward layer_forward (rdb_conv5 m))) (\<lambda>conv5.
     and_then (getattr (rdb_scale_ratio m)) (\<lambda>ratio.
     add (mul_scalar conv5 ratio) x))))))"

record ResidualInResidualDenseBlock =
  RBD1 :: ResidualDenseBlock
  RBD2 :: ResidualDenseBlock
  RBD3 :: ResidualDenseBlock
  rrdb_scale_ratio :: "rat option"

text \<open>The three inner blocks are built without \<^verbatim>\<open>scale_ratio\<close>, so with its default 0.2.\<close>

definition ResidualInResidualDenseBlock_init :: "nat \<Rightarrow> nat \<Rightarrow> rat \<Rightarrow> ResidualInResidualDenseBlock" where
  "ResidualInResidualDenseBlock_init in_ch growth ratio =
     \<lparr> RBD1 = ResidualDenseBlock_init in_ch growth (2 / 10),
       RBD2 = ResidualDenseBlock_init in_ch growth (2 / 10),
       RBD3 = ResidualDenseBlock_init in_ch growth (2 / 10),
       rrdb_scale_ratio = Some ratio \<rparr>"

definition ResidualInResidualDenseBlock_forward ::
  "ResidualInResidualDenseBlock \<Rightarrow> shape \<Rightarrow> error + shape" where
  "ResidualInResidualDenseBlock_forward m x =
     and_then (ResidualDenseBlock_forward (RBD1 m) x) (\<lambda>out.
     and_then (ResidualDenseBlock_forward (RBD2 m) out) (\<lambda>out.
     and_then (ResidualDenseBlock_forward (RBD3 m) out) (\<lambda>out.
     and_then (getattr (rrdb_scale_ratio m)) (\<lambda>ratio.
     add (mul_scalar out ratio) x))))"

subsection \<open>Discriminator\<close>

record Discriminator =
  features :: "layer list"
  avgpool :: "nat \<times> nat"
  classifier :: "layer list"

text \<open>A module is in training mode when constructed, and so are its batch normalisations.\<close>

definition Discriminator_init :: Discriminator where
  "Discriminator_init =
     \<lparr> features =
         [Conv2d 3 64 (3, 3) 1 (1, 1) 1,
          LeakyReLU,
          Conv2d 64 64 (4, 4) 2 (1, 1) 1,
          BatchNorm2d 64 True,
          LeakyReLU,

          Conv2d 64 128 (3, 3) 1 (1, 1) 1,
          BatchNorm2d 128 True,
          LeakyReLU,
          Conv2d 128 128 (4, 4) 2 (1, 1) 1,
          BatchNorm2d 128 True,
          LeakyReLU,

          Conv2d 128 256 (3, 3) 1 (1, 1) 1,
          BatchNorm2d 256 True,
          LeakyReLU,
          Conv2d 256 256 (4, 4) 2 (1, 1) 1,
          BatchNorm2d 256 True,
          LeakyReLU,

          Conv2d 256 512 (3, 3) 1 (1, 1) 1,
          BatchNorm2d 512 True,
          LeakyReLU,
          Conv2d 512 512 (4, 4) 2 (1, 1) 1,
          BatchNorm2d 512 True,
          LeakyReLU,

          Conv2d 512 512 (3, 3) 1 (1, 1) 1,
          BatchNorm2d 512 True,
          LeakyReLU,
          Conv2d 512 512 (4, 4) 2 (1, 1) 1,
          BatchNorm2d 512 True,
          LeakyReLU],
       avgpool = (7, 7),
       classifier =
         [Linear (512 * 7 * 7) 100,
          LeakyReLU,
          Linear 100 1] \<rparr>"

text \<open>
  \<^verbatim>\<open>nn.Module.train(mode)\<close>, inherited by every module (\<^verbatim>\<open>eval()\<close> is \<^verbatim>\<open>train(False)\<close>): it
  sets the mode of the module and of all its members. Only batch normalisation reads it.
\<close>

fun set_training :: "bool \<Rightarrow> layer \<Rightarrow> layer" where
  "set_training mode (BatchNorm2d f tr) = BatchNorm2d f mode"
| "set_training mode l = l"

definition Discriminator_train :: "bool \<Rightarrow> Discriminator \<Rightarrow> Discriminator" where
  "Discriminator_train mode d =
     d\<lparr> features := map (set_training mode) (features d),
        classifier := map (set_training mode) (classifier d) \<rparr>"

text \<open>Whether a layer is a batch normalisation in training mode.\<close>

fun in_training :: "layer \<Rightarrow> bool" where
  "in_training (BatchNorm2d f tr) = tr"
| "in_training l = False"

text \<open>
  \<^verbatim>\<open>forward(self, input: Tensor = None)\<close>: the argument is \<open>None\<close> when the caller passes
  none. \<^verbatim>\<open>self.features\<close> hands it to its first member, and a layer raises \<^verbatim>\<open>TypeError\<close> on
  an argument that is not a tensor.
\<close>

definition features_call :: "layer list \<Rightarrow> shape option \<Rightarrow> error + shape" where
  "features_call ls input =
     (case input of
        None \<Rightarrow> Inl TypeError
      | Some x \<Rightarrow> Sequential_forward layer_forward ls x)"

definition Discriminator_forward :: "Discriminator \<Rightarrow> shape option \<Rightarrow> error + shape" where
  "Discriminator_forward d input =
     and_then (features_call (features d) input) (\<lambda>out.
     and_then (AdaptiveAvgPool2d_forward (avgpool d) out) (\<lambda>out.
     and_then (flatten1 out) (\<lambda>out.
     Sequential_forward layer_forward (classifier d) out)))"

subsection \<open>Generator\<close>

text \<open>The members of \<^verbatim>\<open>self.upsampling\<close> are layers and Inception blocks.\<close>

datatype up_module = Layer layer | Block Inception

fun up_module_forward :: "up_module \<Rightarrow> shape \<Rightarrow> error + shape" where
  "up_module_forward (Layer l) x = layer_forward l x"
| "up_module_forward (Block m) x = Inception_forward m x"

record Generator =
  gen_conv1 :: layer
  residual_residual_dense_blocks :: "ResidualInResidualDenseBlock list"
  residual_residual_fields_dense_blocks :: "ResidualInResidualFieldsDenseBlock list"
  gen_conv2 :: Inception
  upsampling :: "up_module list"
  gen_conv3 :: "layer list"

text \<open>
  \<^verbatim>\<open>upsample_block_num = int(math.log(upscale_factor, 2))\<close>. \<^verbatim>\<open>math.log\<close> is a function of
  Python's library: it raises on a non-positive argument and otherwise returns a
  double-precision number, the rounded quotient of two rounded logarithms. It is a parameter
  of the model, \<open>math_log x b\<close> being the number \<^verbatim>\<open>math.log(x, b)\<close> returns for \<open>x > 0\<close>.
  \<^verbatim>\<open>int\<close> truncates towards zero, and \<^verbatim>\<open>range\<close> of a negative number is empty.
\<close>

definition py_int :: "real \<Rightarrow> int" where
  "py_int x = (if 0 \<le> x then \<lfloor>x\<rfloor> else \<lceil>x\<rceil>)"

definition upsample_block_num :: "(int \<Rightarrow> int \<Rightarrow> real) \<Rightarrow> int \<Rightarrow> error + nat" where
  "upsample_block_num math_log f =
     (if f \<le> 0 then Inl MathDomainError else Inr (nat (py_int (math_log f 2))))"

text \<open>One pass of the loop \<^verbatim>\<open>for _ in range(upsample_block_num)\<close> appends these six members.\<close>

definition upsampling_stage :: "up_module list" where
  "upsampling_stage =
     [Layer (Upsample 2),
      Block (Inception_init 64 64 (2 / 10) True),
      Layer (Conv2d 64 256 (3, 3) 1 (1, 1) 1),
      Layer LeakyReLU,
      Layer (PixelShuffle 2),
      Block (Inception_init 64 64 (2 / 10) True)]"

text \<open>
  The members \<^verbatim>\<open>__init__\<close> assigns once \<^verbatim>\<open>upsample_block_num\<close> is known to be \<open>k\<close>, and
  \<^verbatim>\<open>Generator(upscale_factor)\<close> itself, with \<open>f\<close> for \<^verbatim>\<open>upscale_factor\<close>.
\<close>

definition Generator_modules :: "nat \<Rightarrow> Generator" where
  "Generator_modules k =
     \<lparr> gen_conv1 = Conv2d 3 64 (3, 3) 1 (1, 1) 1,
       residual_residual_dense_blocks =
         replicate 16 (ResidualInResidualDenseBlock_init 64 32 (2 / 10)),
       residual_residual_fields_dense_blocks =
         replicate 8 (ResidualInResidualFieldsDenseBlock_init 64 32 (2 / 10)),
       gen_conv2 = Inception_init 64 64 (2 / 10) False,
       upsampling = concat (replicate k upsampling_stage),
       gen_conv3 =
         [Conv2d 64 64 (3, 3) 1 (1, 1) 1,
          LeakyReLU,
          Conv2d 64 3 (3, 3) 1 (1, 1) 1] \<rparr>"

definition Generator_init :: "(int \<Rightarrow> int \<Rightarrow> real) \<Rightarrow> int \<Rightarrow> error + Generator" where
  "Generator_init math_log f =
     and_then (upsample_block_num math_log f) (\<lambda>k. Inr (Generator_modules k))"

definition Generator_forward :: "Generator \<Rightarrow> shape \<Rightarrow> error + shape" where
  "Generator_forward g x =
     and_then (layer_forward (gen_conv1 g) x) (\<lambda>out1.
     and_then (Sequential_forward ResidualInResidualDenseBlock_forward
                 (residual_residual_dense_blocks g) out1) (\<lambda>out2.
     and_then (Sequential_forward ResidualInResidualFieldsDenseBlock_forward
                 (residual_residual_fields_dense_blocks g) out2) (\<lambda>out2.
     and_then (add out1 out2) (\<lambda>out.
     and_then (Inception_forward (gen_conv2 g) out) (\<lambda>out.
     and_then (Sequential_forward up_module_forward (upsampling g) out) (\<lambda>out.
     Sequential_forward layer_forward (gen_conv3 g) out))))))"

subsection \<open>Channel counts along a sequence of layers\<close>

text \<open>
  The channel count (for \<^verbatim>\<open>nn.Linear\<close>, the feature count) a layer produces from an input
  of \<open>c\<close> channels, and \<open>None\<close> when the layer expects another count than \<open>c\<close>.
\<close>

fun channels_through :: "layer \<Rightarrow> nat \<Rightarrow> nat option" where
  "channels_through (Conv2d cin cout k s p d) c = (if c = cin then Some cout else None)"
| "channels_through (BatchNorm2d f tr) c = (if c = f then Some c else None)"
| "channels_through (Linear fin fout) c = (if c = fin then Some fout else None)"
| "channels_through (PixelShuffle r) c =
     (if 0 < r \<and> c mod (r * r) = 0 then Some (c div (r * r)) else None)"
| "channels_through LeakyReLU c = Some c"
| "channels_through ReLU c = Some c"
| "channels_through (Upsample k) c = Some c"

text \<open>
  A sequence is connected from \<open>c\<close> channels when every layer receives the count it expects
  from the layer before it; \<open>channel_flow\<close> then gives the count the last layer produces.
\<close>

fun channel_flow :: "layer list \<Rightarrow> nat \<Rightarrow> nat option" where
  "channel_flow [] c = Some c"
| "channel_flow (l # ls) c =
     (case channels_through l c of None \<Rightarrow> None | Some c' \<Rightarrow> channel_flow ls c')"

section \<open>Basic facts about the layers\<close>

lemma and_then_Inl: "and_then (Inl e) f = Inl e"
  by (simp add: and_then_def)

lemma and_then_Inr: "and_then (Inr x) f = f x"
  by (simp add: and_then_def)

lemma and_then_error:
  assumes "and_then r f = Inl e"
    and "r = Inl e \<Longrightarrow> P"
    and "\<And>y. r = Inr y \<Longrightarrow> f y = Inl e \<Longrightarrow> P"
  shows P
  using assms by (cases r) (auto simp: and_then_def)

lemma and_then_returns:
  assumes "and_then r f = Inr y"
  obtains z where "r = Inr z" and "f z = Inr y"
  using assms by (cases r) (auto simp: and_then_def)

text \<open>
  A stride-1 convolution whose padding makes up for the kernel (\<open>2 * p = d * (k - 1)\<close>)
  keeps every non-empty spatial size.
\<close>

lemma conv_out_same:
  assumes "2 * p = d * (k - 1)"
  shows "conv_out i k (Suc 0) p d = (if 0 < i then Some i else None)"
  using assms by (simp add: conv_out_def Let_def)

lemma conv_image_same:
  assumes "2 * fst p = d * (fst k - 1)" and "2 * snd p = d * (snd k - 1)"
    and "0 < cin" and "0 < cout"
  shows "conv_image cin cout k (Suc 0) p d c h w =
     (if c = cin \<and> 0 < h \<and> 0 < w then Inr (h, w) else Inl ShapeMismatch)"
  using assms(3,4)
  by (simp add: conv_image_def conv_out_same [OF assms(1)] conv_out_same [OF assms(2)])

lemma Conv2d_same:
  assumes "2 * fst p = d * (fst k - 1)" and "2 * snd p = d * (snd k - 1)"
    and "0 < cin" and "0 < cout"
  shows "Conv2d_forward cin cout k (Suc 0) p d [n, c, h, w] =
     (if c = cin \<and> 0 < h \<and> 0 < w then Inr [n, cout, h, w] else Inl ShapeMismatch)"
  by (simp add: Conv2d_forward_def conv_image_same [OF assms])

lemma Conv2d_same_single:
  assumes "2 * fst p = d * (fst k - 1)" and "2 * snd p = d * (snd k - 1)"
    and "0 < cin" and "0 < cout"
  shows "Conv2d_forward cin cout k (Suc 0) p d [c, h, w] =
     (if c = cin \<and> 0 < h \<and> 0 < w then Inr [cout, h, w] else Inl ShapeMismatch)"
  by (simp add: Conv2d_forward_def conv_image_same [OF assms])

lemma cat1_images:
  "cat1 ([n, c, h, w] # map (\<lambda>k. [n, k, h, w]) ks) = Inr [n, c + sum_list ks, h, w]"
  by (simp add: cat1_def list_all_iff comp_def)

lemma cat1_2: "cat1 [[n, c, h, w], [n, c1, h, w]] = Inr [n, c + c1, h, w]"
  using cat1_images [of n c h w "[c1]"] by simp

lemma cat1_3: "cat1 [[n, c, h, w], [n, c1, h, w], [n, c2, h, w]] = Inr [n, c + (c1 + c2), h, w]"
  using cat1_images [of n c h w "[c1, c2]"] by simp

lemma cat1_4:
  "cat1 [[n, c, h, w], [n, c1, h, w], [n, c2, h, w], [n, c3, h, w]] =
     Inr [n, c + (c1 + (c2 + c3)), h, w]"
  using cat1_images [of n c h w "[c1, c2, c3]"] by simp

lemma cat1_5:
  "cat1 [[n, c, h, w], [n, c1, h, w], [n, c2, h, w], [n, c3, h, w], [n, c4, h, w]] =
     Inr [n, c + (c1 + (c2 + (c3 + c4))), h, w]"
  using cat1_images [of n c h w "[c1, c2, c3, c4]"] by simp

lemma broadcast_rev_same: "broadcast_rev xs xs = Some xs"
  by (induction xs) auto

lemma add_same: "add x x = Inr x"
  by (simp add: add_def broadcast_rev_same)

subsection \<open>What the layers raise\<close>

lemma conv_image_error: "conv_image cin cout k s p d c h w = Inl e \<Longrightarrow> e = ShapeMismatch"
  by (auto simp: conv_image_def split: if_splits option.splits)

lemma Conv2d_forward_error: "Conv2d_forward cin cout k s p d x = Inl e \<Longrightarrow> e = ShapeMismatch"
  by (auto simp: Conv2d_forward_def split: list.splits sum.splits dest: conv_image_error)

lemma layer_forward_error:
  assumes "layer_forward l x = Inl e"
  shows "e = ShapeMismatch \<or> in_training l \<and> e = TooFewValues"
  using assms
  by (cases l)
    (auto simp: BatchNorm2d_forward_def Linear_forward_def Upsample_forward_def
      PixelShuffle_forward_def split: list.splits if_splits dest: Conv2d_forward_error)

lemma layers_error:
  assumes "Sequential_forward layer_forward ls x = Inl e"
  shows "e = ShapeMismatch \<or> list_ex in_training ls \<and> e = TooFewValues"
  using assms
proof (induction ls arbitrary: x)
  case Nil
  then show ?case by simp
next
  case (Cons l ls)
  show ?case
  proof (cases "layer_forward l x")
    case (Inl e')
    with Cons.prems have "layer_forward l x = Inl e" by simp
    from layer_forward_error [OF this] show ?thesis by auto
  next
    case (Inr y)
    with Cons.prems have "Sequential_forward layer_forward ls y = Inl e" by simp
    from Cons.IH [OF this] show ?thesis by auto
  qed
qed

lemma cat1_error: "cat1 xs = Inl e \<Longrightarrow> e = ShapeMismatch"
  by (auto simp: cat1_def split: list.splits if_splits)

lemma add_error: "add x y = Inl e \<Longrightarrow> e = ShapeMismatch"
  by (auto simp: add_def split: option.splits)

lemma Sequential_replicate_fixed:
  assumes "fwd m x = Inr x"
  shows "Sequential_forward fwd (replicate k m) x = Inr x"
  using assms by (induction k) simp_all

lemma Sequential_replicate_fails:
  assumes "fwd m x = Inl e" and "0 < k"
  shows "Sequential_forward fwd (replicate k m) x = Inl e"
  using assms by (cases k) simp_all

section \<open>The residual dense blocks\<close>

lemma ResidualDenseBlock_shape:
  assumes "0 < cin" and "0 < g" and "0 < h" and "0 < w"
  shows "ResidualDenseBlock_forward (ResidualDenseBlock_init cin g r) [n, cin, h, w]
           = Inr [n, cin, h, w]"
  using assms
  by (simp add: ResidualDenseBlock_forward_def ResidualDenseBlock_init_def and_then_Inr Conv2d_same
      cat1_2 cat1_3 cat1_4 cat1_5 getattr_def mul_scalar_def add_same add.assoc)

lemma ResidualInResidualDenseBlock_shape:
  assumes "0 < cin" and "0 < g" and "0 < h" and "0 < w"
  shows "ResidualInResidualDenseBlock_forward (ResidualInResidualDenseBlock_init cin g r)
           [n, cin, h, w] = Inr [n, cin, h, w]"
  using assms
  by (simp add: ResidualInResidualDenseBlock_forward_def ResidualInResidualDenseBlock_init_def
      ResidualDenseBlock_shape and_then_Inr getattr_def mul_scalar_def add_same)

lemma ResidualDenseBlock_error:
  assumes "ResidualDenseBlock_forward (ResidualDenseBlock_init cin g r) x = Inl e"
  shows "e = ShapeMismatch"
proof -
  have convs: "Sequential_forward layer_forward [Conv2d a b k s p d, LeakyReLU] y = Inl e
      \<Longrightarrow> e = ShapeMismatch" for a b k s p d y
    by (drule layers_error) simp
  show ?thesis
    using assms unfolding ResidualDenseBlock_forward_def ResidualDenseBlock_init_def
    by (elim and_then_error)
      (auto dest: convs cat1_error add_error simp: getattr_def
        simp del: Sequential_forward.simps)
qed

lemma ResidualInResidualDenseBlock_error:
  assumes "ResidualInResidualDenseBlock_forward (ResidualInResidualDenseBlock_init cin g r) x = Inl e"
  shows "e = ShapeMismatch"
  using assms
  unfolding ResidualInResidualDenseBlock_forward_def ResidualInResidualDenseBlock_init_def
  by (elim and_then_error) (auto dest: ResidualDenseBlock_error add_error simp: getattr_def)

lemma rrdb_chain_error:
  assumes "Sequential_forward ResidualInResidualDenseBlock_forward
     (replicate k (ResidualInResidualDenseBlock_init cin g r)) x = Inl e"
  shows "e = ShapeMismatch"
  using assms
proof (induction k arbitrary: x)
  case 0
  then show ?case by simp
next
  case (Suc k)
  then show ?case
    by (auto split: sum.splits dest: ResidualInResidualDenseBlock_error)
qed


section \<open>Every Inception block raises, and the generator with it\<close>

text \<open>
  The second convolution of \<^verbatim>\<open>branch1\<close> has kernel 1 and padding 1, so it returns an image two
  cells larger in each direction than the other branches return; \<^verbatim>\<open>torch.cat\<close> rejects the
  four results whenever all four branches return.
\<close>

lemma Sequential_returns:
  assumes "Sequential_forward fwd (m # ms) x = Inr y"
  obtains z where "fwd m x = Inr z" and "Sequential_forward fwd ms z = Inr y"
  using assms by (cases "fwd m x") auto

lemma Conv2d_forward_width:
  assumes "Conv2d_forward cin cout k s p d x = Inr y"
  shows "length y = length x \<and> 3 \<le> length x
    \<and> conv_out (last x) (snd k) s (snd p) d = Some (last y)"
  using assms
  by (auto simp: Conv2d_forward_def conv_image_def
      split: list.splits sum.splits if_splits option.splits)

lemma branch1_width:
  assumes "Sequential_forward layer_forward (inc_branch1 (Inception_init cin cout r nl)) x = Inr y"
  shows "length y = length x \<and> 3 \<le> length x \<and> last y = last x + 2"
proof -
  let ?ch = "cin div 4"
  from assms obtain z where
    z: "Conv2d_forward cin ?ch (1, 1) 1 (0, 0) 1 x = Inr z"
    and y: "Conv2d_forward ?ch ?ch (1, 1) 1 (1, 1) 1 z = Inr y"
    by (auto simp: Inception_init_def Let_def split: sum.splits)
  from Conv2d_forward_width [OF z] Conv2d_forward_width [OF y]
  show ?thesis
    by (auto simp: conv_out_def Let_def split: if_splits)
qed

lemma branch2_width:
  assumes "Sequential_forward layer_forward (inc_branch2 (Inception_init cin cout r nl)) x = Inr y"
  shows "length y = length x \<and> last y = last x"
proof -
  let ?ch = "cin div 4"
  from assms obtain z z' where
    z: "Conv2d_forward cin ?ch (1, 1) 1 (0, 0) 1 x = Inr z"
    and z': "Conv2d_forward ?ch ?ch (1, 3) 1 (0, 1) 1 z = Inr z'"
    and y: "Conv2d_forward ?ch ?ch (3, 3) 1 (3, 3) 3 z' = Inr y"
    by (auto simp: Inception_init_def Let_def split: sum.splits)
  from Conv2d_forward_width [OF z] Conv2d_forward_width [OF z'] Conv2d_forward_width [OF y]
  show ?thesis
    by (auto simp: conv_out_def Let_def split: if_splits)
qed

lemma cat1_width_mismatch:
  assumes "length a = length b" and "3 \<le> length a" and "last a \<noteq> last b"
  shows "cat1 (a # b # rest) = Inl ShapeMismatch"
proof -
  have keep: "last (xs[1 := 0]) = last xs" if "3 \<le> length xs" for xs :: "nat list"
    using that by (subst last_list_update) auto
  have "last (a[1 := 0]) = last a" "last (b[1 := 0]) = last b"
    using assms(1,2) keep [of a] keep [of b] by simp_all
  with assms(3) have "b[1 := 0] \<noteq> a[1 := 0]"
    by metis
  then show ?thesis
    by (simp add: cat1_def)
qed

lemma Inception_layers_error:
  assumes "Sequential_forward layer_forward ls x = Inl e" and "\<not> list_ex in_training ls"
  shows "e = ShapeMismatch"
  using layers_error [OF assms(1)] assms(2) by simp

lemma Inception_forward_fails:
  "Inception_forward (Inception_init cin cout r nl) x = Inl ShapeMismatch"
proof -
  let ?m = "Inception_init cin cout r nl"
  have quiet: "\<not> list_ex in_training (inc_branch1 ?m)" "\<not> list_ex in_training (inc_branch2 ?m)"
    "\<not> list_ex in_training (inc_branch3 ?m)" "\<not> list_ex in_training (inc_branch4 ?m)"
    "\<not> in_training (inc_shortcut ?m)"
    by (simp_all add: Inception_init_def Let_def)
  show ?thesis
  proof (cases "layer_forward (inc_shortcut ?m) x")
    case (Inl e)
    with layer_forward_error [OF Inl] quiet(5) show ?thesis
      by (simp add: Inception_forward_def and_then_Inl)
  next
    case shortcut: (Inr s)
    show ?thesis
    proof (cases "Sequential_forward layer_forward (inc_branch1 ?m) x")
      case (Inl e)
      with Inception_layers_error [OF Inl quiet(1)] show ?thesis
        by (simp add: Inception_forward_def shortcut and_then_Inl and_then_Inr)
    next
      case b1: (Inr b1)
      show ?thesis
      proof (cases "Sequential_forward layer_forward (inc_branch2 ?m) x")
        case (Inl e)
        with Inception_layers_error [OF Inl quiet(2)] show ?thesis
          by (simp add: Inception_forward_def shortcut b1 and_then_Inl and_then_Inr)
      next
        case b2: (Inr b2)
        from branch1_width [OF b1] branch2_width [OF b2]
        have cat: "cat1 (b1 # b2 # rest) = Inl ShapeMismatch" for rest
          by (intro cat1_width_mismatch) auto
        show ?thesis
        proof (cases "Sequential_forward layer_forward (inc_branch3 ?m) x")
          case (Inl e)
          with Inception_layers_error [OF Inl quiet(3)] show ?thesis
            by (simp add: Inception_forward_def shortcut b1 b2 and_then_Inl and_then_Inr)
        next
          case b3: (Inr b3)
          show ?thesis
          proof (cases "Sequential_forward layer_forward (inc_branch4 ?m) x")
            case (Inl e)
            with Inception_layers_error [OF Inl quiet(4)] show ?thesis
              by (simp add: Inception_forward_def shortcut b1 b2 b3 and_then_Inl and_then_Inr)
          next
            case b4: (Inr b4)
            show ?thesis
              by (simp add: Inception_forward_def shortcut b1 b2 b3 b4 cat and_then_Inl
                  and_then_Inr)
          qed
        qed
      qed
    qed
  qed
qed

lemma ReceptiveFieldsDenseBlock_forward_fails:
  "ReceptiveFieldsDenseBlock_forward (ReceptiveFieldsDenseBlock_init cin g r) x = Inl ShapeMismatch"
  by (simp add: ReceptiveFieldsDenseBlock_forward_def ReceptiveFieldsDenseBlock_init_def
      Inception_forward_fails and_then_Inl)

lemma ResidualInResidualFieldsDenseBlock_forward_fails:
  "ResidualInResidualFieldsDenseBlock_forward (ResidualInResidualFieldsDenseBlock_init cin g r) x
     = Inl ShapeMismatch"
  by (simp add: ResidualInResidualFieldsDenseBlock_forward_def
      ResidualInResidualFieldsDenseBlock_init_def ReceptiveFieldsDenseBlock_forward_fails and_then_Inl)

lemma Generator_forward_fails:
  "Generator_forward (Generator_modules k) x = Inl ShapeMismatch"
proof (cases "layer_forward (gen_conv1 (Generator_modules k)) x")
  case (Inl e)
  from layer_forward_error [OF Inl] have "e = ShapeMismatch"
    by (simp add: Generator_modules_def)
  with Inl show ?thesis
    by (simp add: Generator_forward_def and_then_Inl)
next
  case out1: (Inr out1)
  show ?thesis
  proof (cases "Sequential_forward ResidualInResidualDenseBlock_forward
      (residual_residual_dense_blocks (Generator_modules k)) out1")
    case (Inl e)
    then have "e = ShapeMismatch"
      by (auto simp: Generator_modules_def dest: rrdb_chain_error)
    with Inl show ?thesis
      by (simp add: Generator_forward_def out1 and_then_Inl and_then_Inr)
  next
    case out2: (Inr out2)
    have "Sequential_forward ResidualInResidualFieldsDenseBlock_forward
      (residual_residual_fields_dense_blocks (Generator_modules k)) out2 = Inl ShapeMismatch"
      by (simp add: Generator_modules_def Sequential_replicate_fails
          ResidualInResidualFieldsDenseBlock_forward_fails)
    then show ?thesis
      by (simp add: Generator_forward_def out1 out2 and_then_Inl and_then_Inr)
  qed
qed

section \<open>The discriminator\<close>

lemma conv_out_down:
  "conv_out i 4 2 (Suc 0) (Suc 0) = (if 2 \<le> i then Some (i div 2) else None)"
  by (auto simp: conv_out_def Let_def)

lemma Conv2d_down:
  assumes "0 < cin" and "0 < cout"
  shows "Conv2d_forward cin cout (4, 4) 2 (Suc 0, Suc 0) (Suc 0) [n, c, h, w] =
     (if c = cin \<and> 2 \<le> h \<and> 2 \<le> w then Inr [n, cout, h div 2, w div 2] else Inl ShapeMismatch)"
  using assms by (simp add: Conv2d_forward_def conv_image_def conv_out_down)

text \<open>
  The first stage of the feature stack, and the four that follow it: each halves the image,
  and each batch normalisation in training mode wants more than one value per channel.
\<close>

lemma stage0:
  assumes "0 < a" and "0 < b"
  shows "Sequential_forward layer_forward
     (Conv2d a b (3, 3) (Suc 0) (Suc 0, Suc 0) (Suc 0) # LeakyReLU #
      Conv2d b b (4, 4) 2 (Suc 0, Suc 0) (Suc 0) # BatchNorm2d b tr # LeakyReLU # rest)
     [n, c, h, w] =
   (if c = a \<and> 2 \<le> h \<and> 2 \<le> w
    then if tr \<and> n * (h div 2) * (w div 2) = 1 then Inl TooFewValues
         else Sequential_forward layer_forward rest [n, b, h div 2, w div 2]
    else Inl ShapeMismatch)"
  using assms by (auto simp: Conv2d_same Conv2d_down BatchNorm2d_forward_def)

lemma stage:
  assumes "0 < a" and "0 < b"
  shows "Sequential_forward layer_forward
     (Conv2d a b (3, 3) (Suc 0) (Suc 0, Suc 0) (Suc 0) # BatchNorm2d b tr # LeakyReLU #
      Conv2d b b (4, 4) 2 (Suc 0, Suc 0) (Suc 0) # BatchNorm2d b tr # LeakyReLU # rest)
     [n, c, h, w] =
   (if c = a \<and> 0 < h \<and> 0 < w
    then if tr \<and> n * h * w = 1 then Inl TooFewValues
         else if 2 \<le> h \<and> 2 \<le> w
         then if tr \<and> n * (h div 2) * (w div 2) = 1 then Inl TooFewValues
              else Sequential_forward layer_forward rest [n, b, h div 2, w div 2]
         else Inl ShapeMismatch
    else Inl ShapeMismatch)"
  using assms by (auto simp: Conv2d_same Conv2d_down BatchNorm2d_forward_def)

lemma features_train:
  "features (Discriminator_train tr Discriminator_init) =
     [Conv2d 3 64 (3, 3) 1 (1, 1) 1, LeakyReLU,
      Conv2d 64 64 (4, 4) 2 (1, 1) 1, BatchNorm2d 64 tr, LeakyReLU,
      Conv2d 64 128 (3, 3) 1 (1, 1) 1, BatchNorm2d 128 tr, LeakyReLU,
      Conv2d 128 128 (4, 4) 2 (1, 1) 1, BatchNorm2d 128 tr, LeakyReLU,
      Conv2d 128 256 (3, 3) 1 (1, 1) 1, BatchNorm2d 256 tr, LeakyReLU,
      Conv2d 256 256 (4, 4) 2 (1, 1) 1, BatchNorm2d 256 tr, LeakyReLU,
      Conv2d 256 512 (3, 3) 1 (1, 1) 1, BatchNorm2d 512 tr, LeakyReLU,
      Conv2d 512 512 (4, 4) 2 (1, 1) 1, BatchNorm2d 512 tr, LeakyReLU,
      Conv2d 512 512 (3, 3) 1 (1, 1) 1, BatchNorm2d 512 tr, LeakyReLU,
      Conv2d 512 512 (4, 4) 2 (1, 1) 1, BatchNorm2d 512 tr, LeakyReLU]"
  by (simp add: Discriminator_train_def Discriminator_init_def)

lemma halvings:
  fixes h :: nat
  shows "h div 2 div 2 = h div 4" and "h div 4 div 2 = h div 8" and "h div 8 div 2 = h div 16"
    and "h div 16 div 2 = h div 32"
  by (simp_all add: div_mult2_eq [symmetric])

lemma small_product:
  fixes n a b :: nat
  assumes "2 \<le> a"
  shows "n * a * b \<noteq> Suc 0"
  using assms by auto

lemma features_nested:
  "Sequential_forward layer_forward (features (Discriminator_train tr Discriminator_init))
     [n, c, h, w] =
   (if c = 3 \<and> 2 \<le> h \<and> 2 \<le> w
    then if tr \<and> n * (h div 2) * (w div 2) = 1 then Inl TooFewValues
    else if 0 < h div 2 \<and> 0 < w div 2
    then if tr \<and> n * (h div 2) * (w div 2) = 1 then Inl TooFewValues
    else if 2 \<le> h div 2 \<and> 2 \<le> w div 2
    then if tr \<and> n * (h div 4) * (w div 4) = 1 then Inl TooFewValues
    else if 0 < h div 4 \<and> 0 < w div 4
    then if tr \<and> n * (h div 4) * (w div 4) = 1 then Inl TooFewValues
    else if 2 \<le> h div 4 \<and> 2 \<le> w div 4
    then if tr \<and> n * (h div 8) * (w div 8) = 1 then Inl TooFewValues
    else if 0 < h div 8 \<and> 0 < w div 8
    then if tr \<and> n * (h div 8) * (w div 8) = 1 then Inl TooFewValues
    else if 2 \<le> h div 8 \<and> 2 \<le> w div 8
    then if tr \<and> n * (h div 16) * (w div 16) = 1 then Inl TooFewValues
    else if 0 < h div 16 \<and> 0 < w div 16
    then if tr \<and> n * (h div 16) * (w div 16) = 1 then Inl TooFewValues
    else if 2 \<le> h div 16 \<and> 2 \<le> w div 16
    then if tr \<and> n * (h div 32) * (w div 32) = 1 then Inl TooFewValues
    else Inr [n, 512, h div 32, w div 32]
    else Inl ShapeMismatch else Inl ShapeMismatch else Inl ShapeMismatch else Inl ShapeMismatch
    else Inl ShapeMismatch else Inl ShapeMismatch else Inl ShapeMismatch else Inl ShapeMismatch
    else Inl ShapeMismatch)"
  unfolding features_train
  by (simp only: One_nat_def stage0 stage Sequential_forward.simps(1) simp_thms halvings
      zero_less_numeral)

lemma features_returns:
  assumes "c = 3" and "32 \<le> h" and "32 \<le> w" and "\<not> (tr \<and> n * (h div 32) * (w div 32) = 1)"
  shows "Sequential_forward layer_forward (features (Discriminator_train tr Discriminator_init))
     [n, c, h, w] = Inr [n, 512, h div 32, w div 32]"
proof -
  from assms(2,3) have "2 \<le> h div 2" "2 \<le> h div 4" "2 \<le> h div 8" "2 \<le> h div 16" "2 \<le> h"
    "2 \<le> w" "2 \<le> w div 2" "2 \<le> w div 4" "2 \<le> w div 8" "2 \<le> w div 16"
    by linarith+
  then show ?thesis
    using assms by (simp add: features_nested small_product)
qed

lemma features_shape:
  "Sequential_forward layer_forward (features (Discriminator_train tr Discriminator_init))
     [n, c, h, w] = Inr y
   \<longleftrightarrow> c = 3 \<and> 32 \<le> h \<and> 32 \<le> w \<and> \<not> (tr \<and> n * (h div 32) * (w div 32) = 1)
       \<and> y = [n, 512, h div 32, w div 32]"
proof
  assume returns: "Sequential_forward layer_forward
    (features (Discriminator_train tr Discriminator_init)) [n, c, h, w] = Inr y"
  then have c: "c = 3" and big: "2 \<le> h div 16" "2 \<le> w div 16"
    and last: "\<not> (tr \<and> n * (h div 32) * (w div 32) = 1)"
    and y: "y = [n, 512, h div 32, w div 32]"
    by (simp_all add: features_nested split: if_splits)
  from big have "32 \<le> h" "32 \<le> w"
    by linarith+
  with c last y
  show "c = 3 \<and> 32 \<le> h \<and> 32 \<le> w \<and> \<not> (tr \<and> n * (h div 32) * (w div 32) = 1)
    \<and> y = [n, 512, h div 32, w div 32]"
    by simp
next
  assume "c = 3 \<and> 32 \<le> h \<and> 32 \<le> w \<and> \<not> (tr \<and> n * (h div 32) * (w div 32) = 1)
    \<and> y = [n, 512, h div 32, w div 32]"
  then show "Sequential_forward layer_forward
    (features (Discriminator_train tr Discriminator_init)) [n, c, h, w] = Inr y"
    by (simp add: features_returns)
qed

lemma Discriminator_forward_returns:
  assumes "c = 3" and "32 \<le> h" and "32 \<le> w" and "\<not> (tr \<and> n * (h div 32) * (w div 32) = 1)"
  shows "Discriminator_forward (Discriminator_train tr Discriminator_init) (Some [n, c, h, w])
    = Inr [n, 1]"
proof -
  let ?d = "Discriminator_train tr Discriminator_init"
  have feats: "features_call (features ?d) (Some [n, c, h, w]) = Inr [n, 512, h div 32, w div 32]"
    using assms by (simp add: features_call_def features_returns)
  have pooled: "AdaptiveAvgPool2d_forward (avgpool ?d) [n, 512, h div 32, w div 32]
      = Inr [n, 512, 7, 7]"
    using assms
    by (simp add: AdaptiveAvgPool2d_forward_def div_greater_zero_iff Discriminator_train_def
        Discriminator_init_def)
  have flat: "flatten1 [n, 512, 7, 7] = Inr [n, 25088]"
    by (simp add: flatten1_def)
  have scored: "Sequential_forward layer_forward (classifier ?d) [n, 25088] = Inr [n, 1]"
    by (simp add: Linear_forward_def Discriminator_train_def Discriminator_init_def)
  show ?thesis
    unfolding Discriminator_forward_def feats and_then_Inr pooled flat scored ..
qed

lemma Discriminator_error:
  assumes "Discriminator_forward d (Some x) = Inl e"
  shows "e = ShapeMismatch
    \<or> (list_ex in_training (features d) \<or> list_ex in_training (classifier d)) \<and> e = TooFewValues"
  using assms unfolding Discriminator_forward_def features_call_def
  by (elim and_then_error)
    (auto dest: layers_error simp: AdaptiveAvgPool2d_forward_def flatten1_def
      split: list.splits if_splits)

lemma evaluation_mode:
  "\<not> list_ex in_training (features (Discriminator_train False Discriminator_init))"
  "\<not> list_ex in_training (classifier (Discriminator_train mode Discriminator_init))"
  by (simp_all add: Discriminator_train_def Discriminator_init_def)

lemma Discriminator_train_True: "Discriminator_train True Discriminator_init = Discriminator_init"
  by (simp add: Discriminator_train_def Discriminator_init_def)

text \<open>
  C4. Whenever the feature stack of the discriminator accepts an image tensor of shape
  \<open>(batch, C, H, W)\<close>, \<^verbatim>\<open>Discriminator.forward\<close> returns a tensor of shape \<open>(batch, 1)\<close>: one
  score per batch element, whatever \<open>H\<close> and \<open>W\<close> are. (By \<open>features_shape\<close> the stack accepts
  exactly the three-channel images of at least 32 by 32 cells, except that in training mode
  the last batch normalisation rejects a single value per channel.)
\<close>

theorem discriminator_scores_each_batch_element:
  assumes "Sequential_forward layer_forward (features (Discriminator_train mode Discriminator_init))
             [n, c, h, w] = Inr y"
  shows "Discriminator_forward (Discriminator_train mode Discriminator_init) (Some [n, c, h, w])
           = Inr [n, 1]"
  using assms by (simp add: features_shape Discriminator_forward_returns)

theorem discriminator_scores_each_batch_element_witness:
  "Sequential_forward layer_forward (features (Discriminator_train True Discriminator_init))
     [2, 3, 64, 96] = Inr [2, 512, 2, 3]
   \<and> Discriminator_forward (Discriminator_train True Discriminator_init) (Some [2, 3, 64, 96])
       = Inr [2, 1]"
proof -
  have accepted: "Sequential_forward layer_forward
      (features (Discriminator_train True Discriminator_init)) [2, 3, 64, 96] = Inr [2, 512, 2, 3]"
    by (simp add: features_shape)
  show ?thesis
    using accepted discriminator_scores_each_batch_element [OF accepted] by simp
qed

text \<open>
  C9. Called without an argument, \<^verbatim>\<open>Discriminator.forward\<close> raises: the default \<^verbatim>\<open>None\<close>
  reaches the first convolution, which wants a tensor. No score is returned.
\<close>

theorem discriminator_requires_tensor: "Discriminator_forward d None = Inl TypeError"
  by (simp add: Discriminator_forward_def features_call_def and_then_Inl)

section \<open>The residual dense blocks keep the shape\<close>




section \<open>The final layer of the generator\<close>

lemma Generator_init_modules:
  assumes "Generator_init math_log f = Inr G"
  obtains k where "G = Generator_modules k"
  using assms by (auto simp: Generator_init_def and_then_def split: sum.splits)

lemma Generator_init_returns:
  assumes "0 < f"
  shows "Generator_init math_log f = Inr (Generator_modules (nat (py_int (math_log f 2))))"
  using assms by (simp add: Generator_init_def upsample_block_num_def and_then_Inr)

lemma Conv2d_forward_channels:
  assumes "Conv2d_forward cin cout k s p d x = Inr y"
  shows "(\<exists>n h w. y = [n, cout, h, w]) \<or> (\<exists>h w. y = [cout, h, w])"
  using assms
  by (auto simp: Conv2d_forward_def split: list.splits sum.splits)

text \<open>
  C5. The value \<^verbatim>\<open>Generator.forward\<close> returns is the value its last statement gets from
  \<^verbatim>\<open>self.conv3\<close>. So for every generator object whose \<^verbatim>\<open>conv3\<close> is the one the constructor
  builds, whatever its other members are, and every input on which \<^verbatim>\<open>forward\<close> returns, the
  output has 3 channels: it is a batch \<open>[N, 3, H, W]\<close>, or a single image \<open>[3, H, W]\<close>.
\<close>

theorem generator_output_has_three_channels:
  assumes "gen_conv3 g = gen_conv3 (Generator_modules k)"
    and "Generator_forward g x = Inr y"
  shows "(\<exists>n h w. y = [n, 3, h, w]) \<or> (\<exists>h w. y = [3, h, w])"
proof -
  have conv3: "gen_conv3 g =
      [Conv2d 64 64 (3, 3) 1 (1, 1) 1, LeakyReLU, Conv2d 64 3 (3, 3) 1 (1, 1) 1]"
    by (simp add: assms(1) Generator_modules_def)
  from assms(2) obtain z where "Sequential_forward layer_forward (gen_conv3 g) z = Inr y"
    unfolding Generator_forward_def by (elim and_then_returns)
  then obtain z' where "Conv2d_forward 64 3 (3, 3) 1 (1, 1) 1 z' = Inr y"
    unfolding conv3 by (auto split: sum.splits)
  then show ?thesis
    by (rule Conv2d_forward_channels)
qed

text \<open>
  The generators the constructor builds return on no input (\<open>Generator_forward_fails\<close>), so
  the theorem is applied to a generator object without fields blocks and upsampling stages
  whose \<^verbatim>\<open>conv2\<close> is an Inception block of four one-layer branches; its \<^verbatim>\<open>conv1\<close>, its 16
  residual-in-residual dense blocks and its \<^verbatim>\<open>conv3\<close> are the constructor's.
\<close>

theorem generator_output_has_three_channels_witness:
  "Generator_forward
     ((Generator_modules 0)
        \<lparr> residual_residual_fields_dense_blocks := [],
          gen_conv2 :=
            \<lparr> inc_shortcut = Conv2d 64 64 (1, 1) 1 (0, 0) 1,
              inc_branch1 = [Conv2d 64 16 (1, 1) 1 (0, 0) 1],
              inc_branch2 = [Conv2d 64 16 (1, 1) 1 (0, 0) 1],
              inc_branch3 = [Conv2d 64 16 (1, 1) 1 (0, 0) 1],
              inc_branch4 = [Conv2d 64 16 (1, 1) 1 (0, 0) 1],
              inc_conv1x1 = Conv2d 64 64 (1, 1) 1 (0, 0) 1,
              inc_lrelu = None,
              inc_scale_ratio = Some (2 / 10) \<rparr> \<rparr>)
     [1, 3, 8, 8] = Inr [1, 3, 8, 8]
   \<and> ((\<exists>n h w. [1, 3, 8, 8] = [n, 3, h, w]) \<or> (\<exists>h w. [1, 3, 8, 8] = [3, h, w :: nat]))"
proof -
  let ?g = "(Generator_modules 0)
        \<lparr> residual_residual_fields_dense_blocks := [],
          gen_conv2 :=
            \<lparr> inc_shortcut = Conv2d 64 64 (1, 1) 1 (0, 0) 1,
              inc_branch1 = [Conv2d 64 16 (1, 1) 1 (0, 0) 1],
              inc_branch2 = [Conv2d 64 16 (1, 1) 1 (0, 0) 1],
              inc_branch3 = [Conv2d 64 16 (1, 1) 1 (0, 0) 1],
              inc_branch4 = [Conv2d 64 16 (1, 1) 1 (0, 0) 1],
              inc_conv1x1 = Conv2d 64 64 (1, 1) 1 (0, 0) 1,
              inc_lrelu = None,
              inc_scale_ratio = Some (2 / 10) \<rparr> \<rparr>"
  have conv3: "gen_conv3 ?g = gen_conv3 (Generator_modules 0)"
    by simp
  have conv1: "layer_forward (gen_conv1 ?g) [1, 3, 8, 8] = Inr [1, 64, 8, 8]"
    by (simp add: Generator_modules_def Conv2d_same)
  have rrdb: "Sequential_forward ResidualInResidualDenseBlock_forward
      (residual_residual_dense_blocks ?g) [1, 64, 8, 8] = Inr [1, 64, 8, 8]"
    by (simp add: Generator_modules_def Sequential_replicate_fixed
        ResidualInResidualDenseBlock_shape)
  have rest: "residual_residual_fields_dense_blocks ?g = []" "upsampling ?g = []"
    by (simp_all add: Generator_modules_def)
  have conv2: "Inception_forward (gen_conv2 ?g) [1, 64, 8, 8] = Inr [1, 64, 8, 8]"
    by (simp add: Inception_forward_def Conv2d_same cat1_4 getattr_def mul_scalar_def add_same
        and_then_Inr)
  have last: "Sequential_forward layer_forward (gen_conv3 ?g) [1, 64, 8, 8] = Inr [1, 3, 8, 8]"
    by (simp add: Generator_modules_def Conv2d_same)
  have returns: "Generator_forward ?g [1, 3, 8, 8] = Inr [1, 3, 8, 8]"
    unfolding Generator_forward_def conv1 and_then_Inr rrdb rest Sequential_forward.simps
      add_same conv2 last ..
  from generator_output_has_three_channels [OF conv3 returns] returns
  show ?thesis by simp
qed

section \<open>What a forward pass can raise\<close>

text \<open>
  C3, as the claim has it, fails: a freshly constructed discriminator is in training mode,
  and on one image of 32 by 32 cells its last batch normalisation gets a single value per
  channel and raises a \<^verbatim>\<open>ValueError\<close>, which is no mismatch of shapes.
\<close>

theorem forward_errors_counterexample:
  "Discriminator_forward Discriminator_init (Some [1, 3, 32, 32]) = Inl TooFewValues"
proof -
  have "Sequential_forward layer_forward (features (Discriminator_train True Discriminator_init))
      [1, 3, 32, 32] = Inl TooFewValues"
    by (simp add: features_nested)
  then show ?thesis
    by (simp add: Discriminator_train_True Discriminator_forward_def features_call_def and_then_Inl)
qed

text \<open>
  C3, as the code has it. Given a tensor, of whatever shape, the forward pass of each of the
  seven modules of the file either returns or raises a shape mismatch, except that the
  discriminator in training mode can also raise batch normalisation's \<^verbatim>\<open>ValueError\<close> for a
  single value per channel; in evaluation mode it cannot. This holds for a generator of any
  upscale factor and for the five blocks built with any channel counts. In particular no
  forward pass raises on a missing attribute: \<^verbatim>\<open>ReceptiveFieldsDenseBlock.forward\<close> does
  read the attribute \<^verbatim>\<open>scale_ratio\<close> that its constructor never assigns, but only after its
  five Inception blocks, and the first of them raises a shape mismatch on every tensor.
\<close>

theorem forward_errors:
  "(Discriminator_forward (Discriminator_train mode Discriminator_init) (Some x) = Inl e
      \<longrightarrow> e = ShapeMismatch \<or> mode \<and> e = TooFewValues)
   \<and> (Generator_init math_log f = Inr G \<and> Generator_forward G x = Inl e \<longrightarrow> e = ShapeMismatch)
   \<and> (Inception_forward (Inception_init cin cout r nl) x = Inl e \<longrightarrow> e = ShapeMismatch)
   \<and> (ReceptiveFieldsDenseBlock_forward (ReceptiveFieldsDenseBlock_init cin g r) x = Inl e
      \<longrightarrow> e = ShapeMismatch)
   \<and> (ResidualInResidualFieldsDenseBlock_forward
        (ResidualInResidualFieldsDenseBlock_init cin g r) x = Inl e \<longrightarrow> e = ShapeMismatch)
   \<and> (ResidualDenseBlock_forward (ResidualDenseBlock_init cin g r) x = Inl e
      \<longrightarrow> e = ShapeMismatch)
   \<and> (ResidualInResidualDenseBlock_forward (ResidualInResidualDenseBlock_init cin g r) x = Inl e
      \<longrightarrow> e = ShapeMismatch)"
proof -
  have disc: "Discriminator_forward (Discriminator_train mode Discriminator_init) (Some x) = Inl e
      \<longrightarrow> e = ShapeMismatch \<or> mode \<and> e = TooFewValues"
  proof
    assume a: "Discriminator_forward (Discriminator_train mode Discriminator_init) (Some x) = Inl e"
    show "e = ShapeMismatch \<or> mode \<and> e = TooFewValues"
    proof (cases mode)
      case True
      with Discriminator_error [OF a] show ?thesis by auto
    next
      case False
      with Discriminator_error [OF a] evaluation_mode show ?thesis by auto
    qed
  qed
  have gen: "Generator_init math_log f = Inr G \<and> Generator_forward G x = Inl e
      \<longrightarrow> e = ShapeMismatch"
  proof
    assume a: "Generator_init math_log f = Inr G \<and> Generator_forward G x = Inl e"
    then obtain k where "G = Generator_modules k"
      by (auto elim: Generator_init_modules)
    with a show "e = ShapeMismatch"
      by (simp add: Generator_forward_fails)
  qed
  show ?thesis
    using disc gen
    by (auto dest: ResidualDenseBlock_error ResidualInResidualDenseBlock_error
        simp: Inception_forward_fails ReceptiveFieldsDenseBlock_forward_fails
          ResidualInResidualFieldsDenseBlock_forward_fails)
qed

theorem forward_errors_witness:
  "Discriminator_forward (Discriminator_train False Discriminator_init) (Some [1, 3, 8, 8])
     = Inl ShapeMismatch
   \<and> Generator_init (\<lambda>x b. 2) 4 = Inr (Generator_modules 2)
   \<and> Generator_forward (Generator_modules 2) [1, 3, 8, 8] = Inl ShapeMismatch
   \<and> Inception_forward (Inception_init 64 32 (2 / 10) True) [1, 3, 8, 8] = Inl ShapeMismatch
   \<and> ReceptiveFieldsDenseBlock_forward (ReceptiveFieldsDenseBlock_init 64 32 (2 / 10))
       [1, 3, 8, 8] = Inl ShapeMismatch
   \<and> ResidualInResidualFieldsDenseBlock_forward
       (ResidualInResidualFieldsDenseBlock_init 64 32 (2 / 10)) [1, 3, 8, 8] = Inl ShapeMismatch
   \<and> ResidualDenseBlock_forward (ResidualDenseBlock_init 64 32 (2 / 10)) [1, 3, 8, 8]
       = Inl ShapeMismatch
   \<and> ResidualInResidualDenseBlock_forward (ResidualInResidualDenseBlock_init 64 32 (2 / 10))
       [1, 3, 8, 8] = Inl ShapeMismatch"
proof -
  have rdb: "ResidualDenseBlock_forward (ResidualDenseBlock_init 64 32 q) [n, 3, 8, 8]
      = Inl ShapeMismatch" for q and n :: nat
    by (simp add: ResidualDenseBlock_forward_def ResidualDenseBlock_init_def Conv2d_same
        and_then_Inl)
  have rrdb: "ResidualInResidualDenseBlock_forward (ResidualInResidualDenseBlock_init 64 32 (2 / 10))
      [1, 3, 8, 8] = Inl ShapeMismatch"
    by (simp add: ResidualInResidualDenseBlock_forward_def ResidualInResidualDenseBlock_init_def
        rdb and_then_Inl)
  have "Sequential_forward layer_forward (features (Discriminator_train False Discriminator_init))
      [1, 3, 8, 8] = Inl ShapeMismatch"
    by (simp add: features_nested)
  then have disc: "Discriminator_forward (Discriminator_train False Discriminator_init)
      (Some [1, 3, 8, 8]) = Inl ShapeMismatch"
    by (simp add: Discriminator_forward_def features_call_def and_then_Inl)
  have init: "Generator_init (\<lambda>x b. 2) 4 = Inr (Generator_modules 2)"
    by (simp add: Generator_init_returns py_int_def)
  show ?thesis
    using forward_errors
      [of False "[1, 3, 8, 8]" ShapeMismatch "\<lambda>x b. 2" 4 "Generator_modules 2" 64 32 "2 / 10"
        True 32]
    by (intro conjI disc init Generator_forward_fails Inception_forward_fails
        ReceptiveFieldsDenseBlock_forward_fails ResidualInResidualFieldsDenseBlock_forward_fails
        rdb rrdb)
qed

section \<open>Where the code leaves its description\<close>

text \<open>
  The layers of one upsampling stage, its two Inception blocks left out: \<^verbatim>\<open>nn.Upsample\<close>
  doubles the spatial sizes and \<^verbatim>\<open>nn.PixelShuffle\<close> doubles them again, so a stage multiplies
  them by 4.
\<close>

lemma upsampling_stage_layers:
  "[l. Layer l \<leftarrow> upsampling_stage] =
     [Upsample 2, Conv2d 64 256 (3, 3) 1 (1, 1) 1, LeakyReLU, PixelShuffle 2]"
  by (simp add: upsampling_stage_def)

lemma upsampling_stage_layers_scale:
  assumes "0 < h" and "0 < w"
  shows "Sequential_forward layer_forward [l. Layer l \<leftarrow> upsampling_stage] [n, 64, h, w]
           = Inr [n, 64, 4 * h, 4 * w]"
  unfolding upsampling_stage_layers using assms
  by (simp add: Upsample_forward_def Conv2d_same PixelShuffle_forward_def)

text \<open>
  C1. For the generator built with upscale factor 4 and an input of shape \<open>(1, 3, 8, 8)\<close>,
  \<^verbatim>\<open>Generator.forward\<close> returns no tensor of shape \<open>(1, 3, 32, 32)\<close>: it raises a shape
  mismatch. The constructor returns, with as many upsampling stages \<open>k\<close> as \<^verbatim>\<open>math.log(4, 2)\<close>
  gives it (2 where that is 2.0). Whatever \<open>k\<close> is, \<^verbatim>\<open>conv1\<close> and the 16 residual-in-residual
  dense blocks return \<open>(1, 64, 8, 8)\<close>, and the first of the 8 residual-in-residual fields
  dense blocks raises.
\<close>

theorem generator_forward_raises:
  "Generator_init math_log 4 = Inr (Generator_modules (nat (py_int (math_log 4 2))))
   \<and> Generator_init (\<lambda>x b. 2) 4 = Inr (Generator_modules 2)
   \<and> Generator_forward (Generator_modules k) [1, 3, 8, 8] = Inl ShapeMismatch
   \<and> layer_forward (gen_conv1 (Generator_modules k)) [1, 3, 8, 8] = Inr [1, 64, 8, 8]
   \<and> Sequential_forward ResidualInResidualDenseBlock_forward
       (residual_residual_dense_blocks (Generator_modules k)) [1, 64, 8, 8] = Inr [1, 64, 8, 8]
   \<and> Sequential_forward ResidualInResidualFieldsDenseBlock_forward
       (residual_residual_fields_dense_blocks (Generator_modules k)) [1, 64, 8, 8]
       = Inl ShapeMismatch"
proof -
  have conv1: "layer_forward (gen_conv1 (Generator_modules k)) [1, 3, 8, 8] = Inr [1, 64, 8, 8]"
    by (simp add: Generator_modules_def Conv2d_same)
  have rrdb: "Sequential_forward ResidualInResidualDenseBlock_forward
      (residual_residual_dense_blocks (Generator_modules k)) [1, 64, 8, 8] = Inr [1, 64, 8, 8]"
    unfolding Generator_modules_def
    by (simp add: Sequential_replicate_fixed ResidualInResidualDenseBlock_shape)
  have rrfdb: "Sequential_forward ResidualInResidualFieldsDenseBlock_forward
      (residual_residual_fields_dense_blocks (Generator_modules k)) [1, 64, 8, 8]
      = Inl ShapeMismatch"
    unfolding Generator_modules_def
    by (simp add: Sequential_replicate_fails ResidualInResidualFieldsDenseBlock_forward_fails)
  have init: "Generator_init (\<lambda>x b. 2) 4 = Inr (Generator_modules 2)"
    by (simp add: Generator_init_returns py_int_def)
  show ?thesis
    by (intro conjI conv1 rrdb rrfdb init Generator_forward_fails Generator_init_returns) simp
qed

text \<open>The other sequences of layers that the file builds are connected.\<close>

lemma other_branches_connected:
  "channel_flow (inc_branch1 (Inception_init cin cout r nl)) cin = Some (cin div 4)"
  "channel_flow (inc_branch2 (Inception_init cin cout r nl)) cin = Some (cin div 4)"
  "channel_flow (inc_branch3 (Inception_init cin cout r nl)) cin = Some (cin div 4)"
  by (simp_all add: Inception_init_def Let_def)

lemma discriminator_connected:
  "channel_flow (features Discriminator_init) 3 = Some 512"
  "channel_flow (classifier Discriminator_init) (512 * 7 * 7) = Some 1"
  by (simp_all add: Discriminator_init_def)

lemma generator_layers_connected:
  "channels_through (gen_conv1 (Generator_modules k)) 3 = Some 64"
  "channel_flow (gen_conv3 (Generator_modules k)) 64 = Some 3"
  "channel_flow [l. Layer l \<leftarrow> upsampling_stage] 64 = Some 64"
  by (simp_all add: Generator_modules_def upsampling_stage_def)

text \<open>
  C2. In \<^verbatim>\<open>branch4\<close> of the Inception block \<^verbatim>\<open>conv2\<close> of a generator the first convolution
  produces \<^verbatim>\<open>channels // 2\<close> = 8 channels and the next convolution expects
  \<^verbatim>\<open>channels // 4\<close> = 4: the sequence is not connected from 64 channels, and calling it on a
  64-channel image raises a shape mismatch.
\<close>

theorem branch4_channels_disagree:
  "out_channels (inc_branch4 (gen_conv2 (Generator_modules k)) ! 0) = 8
   \<and> in_channels (inc_branch4 (gen_conv2 (Generator_modules k)) ! 2) = 4
   \<and> channel_flow (inc_branch4 (gen_conv2 (Generator_modules k))) 64 = None
   \<and> Sequential_forward layer_forward (inc_branch4 (gen_conv2 (Generator_modules k)))
       [1, 64, 8, 8] = Inl ShapeMismatch"
  by (simp add: Generator_modules_def Inception_init_def Let_def Conv2d_forward_def conv_image_def
      conv_out_def)

text \<open>
  C6. \<^verbatim>\<open>ReceptiveFieldsDenseBlock.forward\<close> on the input \<open>(1, 64, 8, 8)\<close> the generator would
  hand it returns no tensor at all, so not its input plus a scaled correction either; the
  attribute \<^verbatim>\<open>scale_ratio\<close> its last statement reads is absent, where the constructor of
  \<^verbatim>\<open>ResidualDenseBlock\<close> assigns it. The same input makes
  \<^verbatim>\<open>ResidualInResidualFieldsDenseBlock.forward\<close> raise, in its first inner block.
\<close>

theorem fields_dense_block_raises:
  "ReceptiveFieldsDenseBlock_forward (ReceptiveFieldsDenseBlock_init 64 32 (2 / 10)) [1, 64, 8, 8]
     = Inl ShapeMismatch
   \<and> rfdb_scale_ratio (ReceptiveFieldsDenseBlock_init 64 32 (2 / 10)) = None
   \<and> rdb_scale_ratio (ResidualDenseBlock_init 64 32 (2 / 10)) = Some (2 / 10)
   \<and> ResidualInResidualFieldsDenseBlock_forward
       (ResidualInResidualFieldsDenseBlock_init 64 32 (2 / 10)) [1, 64, 8, 8] = Inl ShapeMismatch"
proof -
  have "rfdb_scale_ratio (ReceptiveFieldsDenseBlock_init 64 32 (2 / 10)) = None"
    by (simp add: ReceptiveFieldsDenseBlock_init_def)
  moreover have "rdb_scale_ratio (ResidualDenseBlock_init 64 32 (2 / 10)) = Some (2 / 10)"
    by (simp add: ResidualDenseBlock_init_def)
  ultimately show ?thesis
    using ReceptiveFieldsDenseBlock_forward_fails [of 64 32 "2 / 10" "[1, 64, 8, 8]"]
      ResidualInResidualFieldsDenseBlock_forward_fails [of 64 32 "2 / 10" "[1, 64, 8, 8]"]
    by simp
qed

section \<open>The number of upsampling stages\<close>







end
